theory Spec2Isabelle
  imports Complex_Main
begin

section \<open>JavaScript values used by the two programs\<close>

text \<open>
  A JavaScript \<open>number\<close> is an IEEE-754 double: not-a-number, the two infinities, or a
  finite value. A finite double is represented by the rational it denotes; the two
  signed zeros are identified (no operation modelled below tells them apart, apart from
  the sign of an infinite quotient, which the programs never reach). The rounding of
  a finite result to the nearest double is not computed here: every arithmetic
  operation takes it as the parameter \<open>rnd\<close>.
\<close>

datatype number = NaN | PosInf | NegInf | Fin rat

text \<open>The relational operator \<open>a > b\<close> on numbers: false as soon as one side is NaN.\<close>

fun js_gt :: "number \<Rightarrow> number \<Rightarrow> bool" where
  "js_gt NaN b = False"
| "js_gt a NaN = False"
| "js_gt PosInf PosInf = False"
| "js_gt PosInf b = True"
| "js_gt NegInf b = False"
| "js_gt (Fin x) PosInf = False"
| "js_gt (Fin x) NegInf = True"
| "js_gt (Fin x) (Fin y) = (y < x)"

text \<open>The sign rule shared by products and quotients with an infinite operand.\<close>

definition signed_inf :: "bool \<Rightarrow> number" where
  "signed_inf positive = (if positive then PosInf else NegInf)"

text \<open>The operator \<open>a * b\<close>.\<close>

fun js_mul :: "(rat \<Rightarrow> number) \<Rightarrow> number \<Rightarrow> number \<Rightarrow> number" where
  "js_mul rnd NaN b = NaN"
| "js_mul rnd a NaN = NaN"
| "js_mul rnd (Fin x) (Fin y) = rnd (x * y)"
| "js_mul rnd (Fin x) PosInf = (if x = 0 then NaN else signed_inf (0 < x))"
| "js_mul rnd (Fin x) NegInf = (if x = 0 then NaN else signed_inf (x < 0))"
| "js_mul rnd PosInf (Fin y) = (if y = 0 then NaN else signed_inf (0 < y))"
| "js_mul rnd NegInf (Fin y) = (if y = 0 then NaN else signed_inf (y < 0))"
| "js_mul rnd PosInf PosInf = PosInf"
| "js_mul rnd PosInf NegInf = NegInf"
| "js_mul rnd NegInf PosInf = NegInf"
| "js_mul rnd NegInf NegInf = PosInf"

text \<open>The operator \<open>a / b\<close>; a zero divisor is read as \<open>+0\<close>.\<close>

fun js_div :: "(rat \<Rightarrow> number) \<Rightarrow> number \<Rightarrow> number \<Rightarrow> number" where
  "js_div rnd NaN b = NaN"
| "js_div rnd a NaN = NaN"
| "js_div rnd (Fin x) (Fin y) =
     (if y = 0 then (if x = 0 then NaN else signed_inf (0 < x)) else rnd (x / y))"
| "js_div rnd (Fin x) PosInf = Fin 0"
| "js_div rnd (Fin x) NegInf = Fin 0"
| "js_div rnd PosInf (Fin y) = signed_inf (0 \<le> y)"
| "js_div rnd NegInf (Fin y) = signed_inf (y < 0)"
| "js_div rnd PosInf b = NaN"
| "js_div rnd NegInf b = NaN"

text \<open>
  A property read that may miss (\<open>prices[c]\<close>, \<open>tokens.find(..)?.price\<close>) is a
  \<open>number option\<close>, \<open>None\<close> being \<open>undefined\<close>. \<open>ToNumber\<close> is the conversion an
  arithmetic operator applies to its operand, \<open>truthy\<close> the one a condition applies.
\<close>

definition ToNumber :: "number option \<Rightarrow> number" where
  "ToNumber v = (case v of None \<Rightarrow> NaN | Some n \<Rightarrow> n)"

definition truthy :: "number option \<Rightarrow> bool" where
  "truthy v = (case v of None \<Rightarrow> False | Some n \<Rightarrow> n \<noteq> NaN \<and> n \<noteq> Fin 0)"

text \<open>
  \<open>Array.prototype.sort(comparefn)\<close> is a stable sort (ECMAScript 2019 and later): an
  element \<open>x\<close> stays in front of a later element \<open>y\<close> unless \<open>comparefn(x, y) > 0\<close>.
  For a comparator that is consistent, as the one of the wallet page is, every stable
  sort returns the same array, so the built-in is modelled by insertion from the right.
\<close>

fun insert_by :: "('a \<Rightarrow> 'a \<Rightarrow> int) \<Rightarrow> 'a \<Rightarrow> 'a list \<Rightarrow> 'a list" where
  "insert_by comparefn x [] = [x]"
| "insert_by comparefn x (y # ys) =
     (if comparefn x y \<le> 0 then x # y # ys else y # insert_by comparefn x ys)"

fun sort_js :: "('a \<Rightarrow> 'a \<Rightarrow> int) \<Rightarrow> 'a list \<Rightarrow> 'a list" where
  "sort_js comparefn [] = []"
| "sort_js comparefn (x # xs) = insert_by comparefn x (sort_js comparefn xs)"


section \<open>The wallet page (proplem3/revertCode.tsx)\<close>

record WalletBalance =
  currency :: string
  amount :: number
  blockchain :: string

record FormattedWalletBalance = WalletBalance +
  formatted :: string

text \<open>
  The props of one \<open>WalletRow\<close> element. The prop \<open>amount\<close> is the field \<open>rowAmount\<close>,
  the name \<open>amount\<close> being taken by \<open>WalletBalance\<close>.
\<close>

record WalletRow =
  className :: string
  key :: string
  rowAmount :: number
  usdValue :: number
  formattedAmount :: string

definition getPriority :: "string \<Rightarrow> int" where
  "getPriority chain =
     (if chain = ''Osmosis'' then 100
      else if chain = ''Ethereum'' then 50
      else if chain = ''Arbitrum'' then 30
      else if chain = ''Zilliqa'' then 20
      else if chain = ''Neo'' then 20
      else - 99)"

text \<open>The callback of \<open>balances.filter\<close> and the array it returns.\<close>

definition isValid :: "'a WalletBalance_scheme \<Rightarrow> bool" where
  "isValid balance =
     (let balancePriority = getPriority (blockchain balance)
      in balancePriority > - 99 \<and> js_gt (amount balance) (Fin 0))"

definition validBalances :: "WalletBalance list \<Rightarrow> WalletBalance list" where
  "validBalances balances = filter isValid balances"

text \<open>The comparator handed to \<open>validBalances.sort\<close>.\<close>

definition comparePriority :: "WalletBalance \<Rightarrow> WalletBalance \<Rightarrow> int" where
  "comparePriority lhs rhs =
     (let leftPriority = getPriority (blockchain lhs);
          rightPriority = getPriority (blockchain rhs)
      in rightPriority - leftPriority)"

definition sortedBalances :: "WalletBalance list \<Rightarrow> WalletBalance list" where
  "sortedBalances balances = sort_js comparePriority (validBalances balances)"

text \<open>
  \<open>toLocaleString\<close> depends on the host's locale and is a parameter. The object spread
  \<open>{...balance, formatted: ..}\<close> copies the three fields of the balance.
\<close>

definition formattedBalances ::
  "(number \<Rightarrow> string) \<Rightarrow> WalletBalance list \<Rightarrow> FormattedWalletBalance list" where
  "formattedBalances toLocaleString sorted_balances =
     map (\<lambda>balance. \<lparr>currency = currency balance, amount = amount balance,
                     blockchain = blockchain balance,
                     formatted = toLocaleString (amount balance)\<rparr>) sorted_balances"

text \<open>
  \<open>prices\<close> is the object returned by \<open>usePrices()\<close>, a map from currency to unit price;
  \<open>classesRow\<close> stands for \<open>classes.row\<close>, which the file does not declare.
\<close>

definition rows ::
  "(rat \<Rightarrow> number) \<Rightarrow> string \<Rightarrow> (string \<rightharpoonup> number) \<Rightarrow> FormattedWalletBalance list
     \<Rightarrow> WalletRow list" where
  "rows rnd classesRow prices formatted_balances =
     map (\<lambda>balance.
            let usd = js_mul rnd (ToNumber (prices (currency balance))) (amount balance)
            in \<lparr>className = classesRow,
                key = currency balance @ blockchain balance,
                rowAmount = amount balance,
                usdValue = usd,
                formattedAmount = formatted balance\<rparr>) formatted_balances"

text \<open>The component: what it renders inside the \<open>div\<close>.\<close>

definition WalletPage ::
  "(rat \<Rightarrow> number) \<Rightarrow> (number \<Rightarrow> string) \<Rightarrow> string \<Rightarrow> (string \<rightharpoonup> number)
     \<Rightarrow> WalletBalance list \<Rightarrow> WalletRow list" where
  "WalletPage rnd toLocaleString classesRow prices balances =
     rows rnd classesRow prices (formattedBalances toLocaleString (sortedBalances balances))"


subsection \<open>The filter and sort stage with its calls of the resolver recorded\<close>

text \<open>
  The same code as \<open>sortedBalances\<close>, threading a log to which every call of
  \<open>getPriority\<close> appends its argument. The filter runs its callback once on every
  element, in order; the callback calls the resolver once. The comparator calls it
  twice, for the left operand and then for the right one.
\<close>

definition getPriority_logged :: "string \<Rightarrow> string list \<Rightarrow> int \<times> string list" where
  "getPriority_logged chain calls = (getPriority chain, calls @ [chain])"

fun validBalances_logged ::
  "WalletBalance list \<Rightarrow> string list \<Rightarrow> WalletBalance list \<times> string list" where
  "validBalances_logged [] calls = ([], calls)"
| "validBalances_logged (balance # balances) calls =
     (let (balancePriority, calls1) = getPriority_logged (blockchain balance) calls;
          (kept, calls2) = validBalances_logged balances calls1
      in (if balancePriority > - 99 \<and> js_gt (amount balance) (Fin 0)
          then balance # kept else kept, calls2))"

definition comparePriority_logged ::
  "WalletBalance \<Rightarrow> WalletBalance \<Rightarrow> string list \<Rightarrow> int \<times> string list" where
  "comparePriority_logged lhs rhs calls =
     (let (leftPriority, calls1) = getPriority_logged (blockchain lhs) calls;
          (rightPriority, calls2) = getPriority_logged (blockchain rhs) calls1
      in (rightPriority - leftPriority, calls2))"

text \<open>
  Which pairs \<open>Array.prototype.sort\<close> hands to the comparator, and in which order, is
  left to the engine. The sequence of comparator calls an engine makes on an array is
  therefore a parameter, \<open>schedule\<close>; the comparator is run on every pair of it. The
  array returned does not depend on the engine and is the one of \<open>sort_js\<close>.
\<close>

fun comparisons_logged ::
  "(WalletBalance \<times> WalletBalance) list \<Rightarrow> string list \<Rightarrow> string list" where
  "comparisons_logged [] calls = calls"
| "comparisons_logged ((lhs, rhs) # pairs) calls =
     (let (c, calls1) = comparePriority_logged lhs rhs calls
      in comparisons_logged pairs calls1)"

definition sortedBalances_logged ::
  "(WalletBalance list \<Rightarrow> (WalletBalance \<times> WalletBalance) list) \<Rightarrow> WalletBalance list
     \<Rightarrow> string list \<Rightarrow> WalletBalance list \<times> string list" where
  "sortedBalances_logged schedule balances calls =
     (let (valid, calls1) = validBalances_logged balances calls
      in (sort_js comparePriority valid, comparisons_logged (schedule valid) calls1))"


subsection \<open>The format and project stage with its callback runs recorded\<close>

text \<open>
  The same code as \<open>formattedBalances\<close> and \<open>rows\<close>, threading a log to which every
  run of a \<open>map\<close> callback appends which of the two maps ran and on which record (named
  by its key). \<open>map\<close> runs its callback once on every element, in order. The stage
  returns the intermediate array with the rows.
\<close>

datatype traversal = FormattedBalancesMap | RowsMap

fun formattedBalances_logged ::
  "(number \<Rightarrow> string) \<Rightarrow> WalletBalance list \<Rightarrow> (traversal \<times> string) list
     \<Rightarrow> FormattedWalletBalance list \<times> (traversal \<times> string) list" where
  "formattedBalances_logged toLocaleString [] visits = ([], visits)"
| "formattedBalances_logged toLocaleString (balance # balances) visits =
     (let visits1 = visits @ [(FormattedBalancesMap, currency balance @ blockchain balance)];
          fb = \<lparr>currency = currency balance, amount = amount balance,
                blockchain = blockchain balance,
                formatted = toLocaleString (amount balance)\<rparr>;
          (fbs, visits2) = formattedBalances_logged toLocaleString balances visits1
      in (fb # fbs, visits2))"

fun rows_logged ::
  "(rat \<Rightarrow> number) \<Rightarrow> string \<Rightarrow> (string \<rightharpoonup> number) \<Rightarrow> FormattedWalletBalance list
     \<Rightarrow> (traversal \<times> string) list \<Rightarrow> WalletRow list \<times> (traversal \<times> string) list" where
  "rows_logged rnd classesRow prices [] visits = ([], visits)"
| "rows_logged rnd classesRow prices (balance # balances) visits =
     (let visits1 = visits @ [(RowsMap, currency balance @ blockchain balance)];
          usd = js_mul rnd (ToNumber (prices (currency balance))) (amount balance);
          r = \<lparr>className = classesRow,
               key = currency balance @ blockchain balance,
               rowAmount = amount balance,
               usdValue = usd,
               formattedAmount = formatted balance\<rparr>;
          (rs, visits2) = rows_logged rnd classesRow prices balances visits1
      in (r # rs, visits2))"

definition formatAndProject_logged ::
  "(rat \<Rightarrow> number) \<Rightarrow> (number \<Rightarrow> string) \<Rightarrow> string \<Rightarrow> (string \<rightharpoonup> number)
     \<Rightarrow> WalletBalance list
     \<Rightarrow> FormattedWalletBalance list \<times> WalletRow list \<times> (traversal \<times> string) list" where
  "formatAndProject_logged rnd toLocaleString classesRow prices sorted_balances =
     (let (formatted_balances, visits1) =
            formattedBalances_logged toLocaleString sorted_balances [];
          (rs, visits2) = rows_logged rnd classesRow prices formatted_balances visits1
      in (formatted_balances, rs, visits2))"


section \<open>The currency swap form (currency-swap/src/App.tsx)\<close>

text \<open>
  A fetched token; its field \<open>currency\<close> is \<open>tokenCurrency\<close> here. The state of the form
  has the eight \<open>useState\<close> cells (\<open>amount\<close> is \<open>amountInput\<close>); \<open>null\<close> is \<open>None\<close>.
\<close>

record Token =
  tokenCurrency :: string
  date :: string
  price :: number

record SwapForm =
  tokens :: "Token list"
  fromToken :: string
  toToken :: string
  amountInput :: string
  exchangeRate :: "number option"
  loading :: bool
  error :: string
  result :: "number option"

text \<open>\<open>tokens.find((t) => t.currency === c)?.price\<close>: the price of the first match.\<close>

definition findPrice :: "Token list \<Rightarrow> string \<Rightarrow> number option" where
  "findPrice ts c =
     (case find (\<lambda>t. tokenCurrency t = c) ts of None \<Rightarrow> None | Some t \<Rightarrow> Some (price t))"

text \<open>
  The effect that runs when \<open>fromToken\<close>, \<open>toToken\<close> or \<open>tokens\<close> changed. A string is
  truthy when it is not empty. \<open>toFixed\<close> and \<open>Number\<close> are the built-ins, taken as
  parameters.
\<close>

definition exchangeRateEffect ::
  "(rat \<Rightarrow> number) \<Rightarrow> (number \<Rightarrow> nat \<Rightarrow> string) \<Rightarrow> (string \<Rightarrow> number)
     \<Rightarrow> SwapForm \<Rightarrow> SwapForm" where
  "exchangeRateEffect rnd toFixed Number s =
     (if fromToken s \<noteq> [] \<and> toToken s \<noteq> [] then
        (let fromPrice = findPrice (tokens s) (fromToken s);
             toPrice = findPrice (tokens s) (toToken s)
         in if truthy fromPrice \<and> truthy toPrice
            then s\<lparr>exchangeRate :=
                     Some (Number (toFixed (js_div rnd (ToNumber fromPrice) (ToNumber toPrice)) 6))\<rparr>
            else s\<lparr>exchangeRate := None\<rparr>)
      else s)"


section \<open>The sort and the stages, as lists\<close>

lemma set_insert_by: "set (insert_by comparefn x xs) = insert x (set xs)"
  by (induction xs) auto

lemma set_sort_js: "set (sort_js comparefn xs) = set xs"
  by (induction xs) (auto simp: set_insert_by)

lemma length_insert_by: "length (insert_by comparefn x xs) = Suc (length xs)"
  by (induction xs) auto

lemma length_sort_js: "length (sort_js comparefn xs) = length xs"
  by (induction xs) (auto simp: length_insert_by)

text \<open>
  With a comparator that subtracts two integer scores, the insertion is the library's
  insertion by the negated score, so the library's facts on \<open>sort_key\<close> apply.
\<close>

lemma insert_by_insort_key:
  "insert_by (\<lambda>x y. f y - f x) x xs = insort_key (\<lambda>x. - f x) x xs"
  by (induction xs) auto

lemma sort_js_sort_key:
  "sort_js (\<lambda>x y. (f y :: int) - f x) xs = sort_key (\<lambda>x. - f x) xs"
  by (induction xs) (auto simp: insert_by_insort_key)

lemma comparePriority_eq:
  "comparePriority = (\<lambda>x y. getPriority (blockchain y) - getPriority (blockchain x))"
  by (simp add: comparePriority_def fun_eq_iff)

lemma sortedBalances_sort_key:
  "sortedBalances bs = sort_key (\<lambda>b. - getPriority (blockchain b)) (validBalances bs)"
  unfolding sortedBalances_def comparePriority_eq by (rule sort_js_sort_key)

lemma set_sortedBalances: "set (sortedBalances bs) = {b \<in> set bs. isValid b}"
  by (auto simp: sortedBalances_def set_sort_js validBalances_def)

lemma sortedBalances_descending:
  "sorted_wrt (\<lambda>a b. getPriority (blockchain b) \<le> getPriority (blockchain a))
     (sortedBalances bs)"
proof -
  have "sorted (map (\<lambda>b. - getPriority (blockchain b)) (sortedBalances bs))"
    unfolding sortedBalances_sort_key by (rule sorted_sort_key)
  then show ?thesis by (simp add: sorted_map)
qed

lemma sortedBalances_stable:
  "filter (\<lambda>b. getPriority (blockchain b) = k) (sortedBalances bs)
   = filter (\<lambda>b. getPriority (blockchain b) = k) (validBalances bs)"
proof -
  have "filter (\<lambda>b. - getPriority (blockchain b) = - k) (sortedBalances bs)
      = filter (\<lambda>b. - getPriority (blockchain b) = - k) (validBalances bs)"
    unfolding sortedBalances_sort_key by (rule sort_key_stable)
  then show ?thesis by simp
qed

text \<open>The two maps of the component, composed.\<close>

lemma rows_formattedBalances:
  "rows rnd cls prices (formattedBalances fmt sbs) =
     map (\<lambda>b. \<lparr>className = cls, key = currency b @ blockchain b, rowAmount = amount b,
               usdValue = js_mul rnd (ToNumber (prices (currency b))) (amount b),
               formattedAmount = fmt (amount b)\<rparr>) sbs"
  by (simp add: rows_def formattedBalances_def Let_def comp_def)

lemma WalletPage_map:
  "WalletPage rnd fmt cls prices bs =
     map (\<lambda>b. \<lparr>className = cls, key = currency b @ blockchain b, rowAmount = amount b,
               usdValue = js_mul rnd (ToNumber (prices (currency b))) (amount b),
               formattedAmount = fmt (amount b)\<rparr>) (sortedBalances bs)"
  by (simp add: WalletPage_def rows_formattedBalances)

text \<open>
  The chains that pass the filter are the five known ones, and none of them is a suffix
  of another: the concatenation \<open>currency + blockchain\<close> of a surviving record splits
  in one way only.
\<close>

lemma known_chain:
  "- 99 < getPriority chain
     \<longleftrightarrow> chain \<in> {''Osmosis'', ''Ethereum'', ''Arbitrum'', ''Zilliqa'', ''Neo''}"
  by (auto simp: getPriority_def)

lemma key_determines_pair:
  assumes "- 99 < getPriority b1" "- 99 < getPriority b2" "c1 @ b1 = c2 @ b2"
  shows "c1 = c2 \<and> b1 = b2"
proof -
  from assms(3) have "rev (c1 @ b1) = rev (c2 @ b2)" by simp
  then have r: "rev b1 @ rev c1 = rev b2 @ rev c2" by simp
  from assms(1,2) have "b1 \<in> {''Osmosis'', ''Ethereum'', ''Arbitrum'', ''Zilliqa'', ''Neo''}"
    "b2 \<in> {''Osmosis'', ''Ethereum'', ''Arbitrum'', ''Zilliqa'', ''Neo''}"
    by (simp_all only: known_chain)
  with r show ?thesis by auto
qed


section \<open>The logged stages compute the same arrays\<close>

lemma validBalances_logged_eq:
  "validBalances_logged bs calls = (validBalances bs, calls @ map blockchain bs)"
  by (induction bs arbitrary: calls)
     (simp_all add: validBalances_def isValid_def getPriority_logged_def)

lemma comparePriority_logged_eq:
  "comparePriority_logged x y calls
     = (comparePriority x y, calls @ [blockchain x, blockchain y])"
  by (simp add: comparePriority_logged_def comparePriority_def getPriority_logged_def)

lemma comparisons_logged_eq:
  "comparisons_logged pairs calls
     = calls @ concat (map (\<lambda>(lhs, rhs). [blockchain lhs, blockchain rhs]) pairs)"
  by (induction pairs calls rule: comparisons_logged.induct)
     (simp_all add: comparePriority_logged_eq)

text \<open>
  Whatever the engine's schedule, the logged stage returns the array of
  \<open>sortedBalances\<close>; it has resolved the chain of every input record once in the
  filter and the chains of both operands again at every comparator call.
\<close>

lemma sortedBalances_logged_eq:
  "sortedBalances_logged schedule bs calls
     = (sortedBalances bs,
        calls @ map blockchain bs
          @ concat (map (\<lambda>(lhs, rhs). [blockchain lhs, blockchain rhs])
                     (schedule (validBalances bs))))"
  by (simp add: sortedBalances_logged_def sortedBalances_def validBalances_logged_eq
      comparisons_logged_eq)

lemma length_concat_pairs:
  "length (concat (map (\<lambda>(lhs, rhs). [f lhs, f rhs]) pairs)) = 2 * length pairs"
  by (induction pairs) auto

lemma getPriority_calls_count:
  "length (snd (sortedBalances_logged schedule bs []))
     = length bs + 2 * length (schedule (validBalances bs))"
  by (simp add: sortedBalances_logged_eq length_concat_pairs)

lemma formattedBalances_logged_eq:
  "formattedBalances_logged fmt bs visits
     = (formattedBalances fmt bs,
        visits @ map (\<lambda>b. (FormattedBalancesMap, currency b @ blockchain b)) bs)"
  by (induction bs arbitrary: visits) (simp_all add: formattedBalances_def)

lemma rows_logged_eq:
  "rows_logged rnd cls prices fbs visits
     = (rows rnd cls prices fbs,
        visits @ map (\<lambda>b. (RowsMap, currency b @ blockchain b)) fbs)"
  by (induction fbs arbitrary: visits) (simp_all add: rows_def Let_def)

text \<open>
  The logged stage returns the arrays of \<open>formattedBalances\<close> and \<open>rows\<close>, and every
  record of the sorted sequence has been visited twice, once by each map.
\<close>

lemma formatAndProject_logged_eq:
  "formatAndProject_logged rnd fmt cls prices sbs
     = (formattedBalances fmt sbs,
        rows rnd cls prices (formattedBalances fmt sbs),
        map (\<lambda>b. (FormattedBalancesMap, currency b @ blockchain b)) sbs
          @ map (\<lambda>b. (RowsMap, currency b @ blockchain b)) sbs)"
  by (simp add: formatAndProject_logged_def formattedBalances_logged_eq rows_logged_eq)
     (simp add: formattedBalances_def comp_def)


section \<open>The claims on the wallet page\<close>

text \<open>
  Claim C1, as the code has it. The code multiplies \<open>prices[balance.currency]\<close> by the
  amount with no test for a missing entry, so a record whose currency has no price gets
  the row value \<open>undefined * amount\<close>, which is \<open>NaN\<close>, and not a separate "unknown"
  marker. The batch is not disturbed: there is one row per record of the sorted
  sequence, and taking the price of a currency \<open>c\<close> away leaves the row of every record
  of another currency as it was.
\<close>

theorem missing_price_gives_NaN:
  "length (WalletPage rnd fmt cls prices balances) = length (sortedBalances balances)
   \<and> (\<forall>i < length (sortedBalances balances).
        prices (currency (sortedBalances balances ! i)) = None
        \<longrightarrow> usdValue (WalletPage rnd fmt cls prices balances ! i) = NaN)
   \<and> (\<forall>i < length (sortedBalances balances).
        currency (sortedBalances balances ! i) \<noteq> c
        \<longrightarrow> WalletPage rnd fmt cls (prices(c := None)) balances ! i
            = WalletPage rnd fmt cls prices balances ! i)"
  by (simp add: WalletPage_map ToNumber_def)

theorem missing_price_gives_NaN_witness:
  "sortedBalances [\<lparr>currency = ''BTC'', amount = Fin 2, blockchain = ''Ethereum''\<rparr>,
                   \<lparr>currency = ''ATOM'', amount = Fin 3, blockchain = ''Osmosis''\<rparr>]
     = [\<lparr>currency = ''ATOM'', amount = Fin 3, blockchain = ''Osmosis''\<rparr>,
        \<lparr>currency = ''BTC'', amount = Fin 2, blockchain = ''Ethereum''\<rparr>]
   \<and> [''BTC'' \<mapsto> Fin 50000] ''ATOM'' = None
   \<and> usdValue (WalletPage Fin (\<lambda>n. ''2'') ''row'' [''BTC'' \<mapsto> Fin 50000]
        [\<lparr>currency = ''BTC'', amount = Fin 2, blockchain = ''Ethereum''\<rparr>,
         \<lparr>currency = ''ATOM'', amount = Fin 3, blockchain = ''Osmosis''\<rparr>] ! 0) = NaN
   \<and> WalletPage Fin (\<lambda>n. ''2'') ''row'' ([''BTC'' \<mapsto> Fin 50000](''ATOM'' := None))
        [\<lparr>currency = ''BTC'', amount = Fin 2, blockchain = ''Ethereum''\<rparr>,
         \<lparr>currency = ''ATOM'', amount = Fin 3, blockchain = ''Osmosis''\<rparr>] ! 1
     = WalletPage Fin (\<lambda>n. ''2'') ''row'' [''BTC'' \<mapsto> Fin 50000]
        [\<lparr>currency = ''BTC'', amount = Fin 2, blockchain = ''Ethereum''\<rparr>,
         \<lparr>currency = ''ATOM'', amount = Fin 3, blockchain = ''Osmosis''\<rparr>] ! 1"
proof -
  let ?bs = "[\<lparr>currency = ''BTC'', amount = Fin 2, blockchain = ''Ethereum''\<rparr>,
              \<lparr>currency = ''ATOM'', amount = Fin 3, blockchain = ''Osmosis''\<rparr>]"
  have s: "sortedBalances ?bs
     = [\<lparr>currency = ''ATOM'', amount = Fin 3, blockchain = ''Osmosis''\<rparr>,
        \<lparr>currency = ''BTC'', amount = Fin 2, blockchain = ''Ethereum''\<rparr>]"
    by (simp add: sortedBalances_def validBalances_def isValid_def comparePriority_def
        getPriority_def)
  show ?thesis
    using missing_price_gives_NaN
      [of Fin "\<lambda>n. ''2''" "''row''" "[''BTC'' \<mapsto> Fin 50000]" ?bs "''ATOM''"]
    unfolding s by (simp add: All_less_Suc2)
qed

text \<open>
  Claim C1 as it is stated fails: with no price for BTC, the single row of the record
  \<open>{BTC, Ethereum, 2}\<close> has the \<open>usdValue\<close> \<open>NaN\<close>.
\<close>

theorem missing_price_usdValue_counterexample:
  "Map.empty ''BTC'' = (None :: number option)
   \<and> usdValue (hd (WalletPage Fin (\<lambda>n. ''2'') ''row'' Map.empty
        [\<lparr>currency = ''BTC'', amount = Fin 2, blockchain = ''Ethereum''\<rparr>])) = NaN"
  by (simp add: WalletPage_map sortedBalances_def validBalances_def isValid_def
      getPriority_def ToNumber_def)

text \<open>
  Claim C2. Two runs of the component on the same balances with two price maps give rows
  in the same number and order, with the same keys, amounts, formatted amounts and class
  names; \<open>usdValue\<close> is the only field of a row that reads the prices. (The filter and
  sort stage \<open>sortedBalances\<close> does not take the prices at all.)
\<close>

theorem prices_only_change_usdValue:
  "length (WalletPage rnd fmt cls p1 balances) = length (WalletPage rnd fmt cls p2 balances)
   \<and> map key (WalletPage rnd fmt cls p1 balances) = map key (WalletPage rnd fmt cls p2 balances)
   \<and> map rowAmount (WalletPage rnd fmt cls p1 balances)
       = map rowAmount (WalletPage rnd fmt cls p2 balances)
   \<and> map formattedAmount (WalletPage rnd fmt cls p1 balances)
       = map formattedAmount (WalletPage rnd fmt cls p2 balances)
   \<and> map className (WalletPage rnd fmt cls p1 balances)
       = map className (WalletPage rnd fmt cls p2 balances)"
  by (simp add: WalletPage_map comp_def)

text \<open>
  Claim C3. Every row of the output is the row of some input record whose chain
  resolves above the sentinel and whose amount is greater than zero; the empty input
  gives no row, and so does an input in which no record is valid.
\<close>

theorem WalletPage_rows_valid:
  "(\<forall>r \<in> set (WalletPage rnd fmt cls prices balances).
      \<exists>b \<in> set balances. - 99 < getPriority (blockchain b) \<and> js_gt (amount b) (Fin 0)
         \<and> key r = currency b @ blockchain b \<and> rowAmount r = amount b
         \<and> formattedAmount r = fmt (amount b)
         \<and> usdValue r = js_mul rnd (ToNumber (prices (currency b))) (amount b))
   \<and> WalletPage rnd fmt cls prices [] = []
   \<and> ((\<forall>b \<in> set balances. \<not> (- 99 < getPriority (blockchain b) \<and> js_gt (amount b) (Fin 0)))
        \<longrightarrow> WalletPage rnd fmt cls prices balances = [])"
proof (intro conjI ballI impI)
  fix r assume "r \<in> set (WalletPage rnd fmt cls prices balances)"
  then obtain b where b: "b \<in> set (sortedBalances balances)"
    and r: "key r = currency b @ blockchain b" "rowAmount r = amount b"
      "formattedAmount r = fmt (amount b)"
      "usdValue r = js_mul rnd (ToNumber (prices (currency b))) (amount b)"
    by (auto simp: WalletPage_map)
  from b have "b \<in> set balances" "isValid b" by (simp_all add: set_sortedBalances)
  with r show "\<exists>b \<in> set balances. - 99 < getPriority (blockchain b) \<and> js_gt (amount b) (Fin 0)
         \<and> key r = currency b @ blockchain b \<and> rowAmount r = amount b
         \<and> formattedAmount r = fmt (amount b)
         \<and> usdValue r = js_mul rnd (ToNumber (prices (currency b))) (amount b)"
    by (auto simp: isValid_def)
next
  show "WalletPage rnd fmt cls prices [] = []"
    by (simp add: WalletPage_map sortedBalances_def validBalances_def)
next
  assume "\<forall>b \<in> set balances. \<not> (- 99 < getPriority (blockchain b) \<and> js_gt (amount b) (Fin 0))"
  then have "set (sortedBalances balances) = {}"
    by (auto simp: set_sortedBalances isValid_def)
  then show "WalletPage rnd fmt cls prices balances = []"
    by (simp add: WalletPage_map)
qed

theorem WalletPage_rows_valid_witness:
  "(\<exists>b \<in> set [\<lparr>currency = ''ETH'', amount = Fin 0, blockchain = ''Osmosis''\<rparr>,
               \<lparr>currency = ''BTC'', amount = Fin 2, blockchain = ''Ethereum''\<rparr>].
       - 99 < getPriority (blockchain b) \<and> js_gt (amount b) (Fin 0)
       \<and> ''BTCEthereum'' = currency b @ blockchain b \<and> Fin 2 = amount b)
   \<and> WalletPage Fin (\<lambda>n. ''2'') ''row'' Map.empty
        [\<lparr>currency = ''ETH'', amount = Fin 0, blockchain = ''Osmosis''\<rparr>,
         \<lparr>currency = ''BTC'', amount = Fin 2, blockchain = ''Ethereum''\<rparr>]
      = [\<lparr>className = ''row'', key = ''BTCEthereum'', rowAmount = Fin 2, usdValue = NaN,
          formattedAmount = ''2''\<rparr>]
   \<and> WalletPage Fin (\<lambda>n. ''2'') ''row'' Map.empty
        [\<lparr>currency = ''XYZ'', amount = Fin 5, blockchain = ''Unknown''\<rparr>,
         \<lparr>currency = ''ETH'', amount = Fin 0, blockchain = ''Osmosis''\<rparr>] = []"
proof -
  let ?eth = "\<lparr>currency = ''ETH'', amount = Fin 0, blockchain = ''Osmosis''\<rparr>"
  let ?btc = "\<lparr>currency = ''BTC'', amount = Fin 2, blockchain = ''Ethereum''\<rparr>"
  let ?xyz = "\<lparr>currency = ''XYZ'', amount = Fin 5, blockchain = ''Unknown''\<rparr>"
  have out: "WalletPage Fin (\<lambda>n. ''2'') ''row'' Map.empty [?eth, ?btc]
      = [\<lparr>className = ''row'', key = ''BTCEthereum'', rowAmount = Fin 2, usdValue = NaN,
          formattedAmount = ''2''\<rparr>]"
    by (simp add: WalletPage_map sortedBalances_def validBalances_def isValid_def
        getPriority_def ToNumber_def)
  have inv: "\<forall>b \<in> set [?xyz, ?eth].
      \<not> (- 99 < getPriority (blockchain b) \<and> js_gt (amount b) (Fin 0))"
    by (simp add: getPriority_def)
  from WalletPage_rows_valid [of Fin "\<lambda>n. ''2''" "''row''" Map.empty "[?eth, ?btc]"]
  have "\<exists>b \<in> set [?eth, ?btc]. - 99 < getPriority (blockchain b) \<and> js_gt (amount b) (Fin 0)
       \<and> ''BTCEthereum'' = currency b @ blockchain b \<and> Fin 2 = amount b"
    unfolding out by simp
  moreover from WalletPage_rows_valid [of Fin "\<lambda>n. ''2''" "''row''" Map.empty "[?xyz, ?eth]"] inv
  have "WalletPage Fin (\<lambda>n. ''2'') ''row'' Map.empty [?xyz, ?eth] = []"
    by blast
  ultimately show ?thesis using out by blast
qed

text \<open>
  Claim C4. The sorted sequence is in descending order of priority: no record stands
  before one of strictly higher priority. Priorities are integers, so any two records
  compare. Records of one priority \<open>k\<close> keep the order they have in the input (the
  filter keeps the input order). The rows follow the sorted sequence one to one.
\<close>

theorem sortedBalances_descending_stable:
  "sorted_wrt (\<lambda>a b. getPriority (blockchain b) \<le> getPriority (blockchain a))
     (sortedBalances balances)
   \<and> (\<forall>k. filter (\<lambda>b. getPriority (blockchain b) = k) (sortedBalances balances)
        = filter (\<lambda>b. getPriority (blockchain b) = k)
            (filter (\<lambda>b. - 99 < getPriority (blockchain b) \<and> js_gt (amount b) (Fin 0))
               balances))
   \<and> map key (WalletPage rnd fmt cls prices balances)
        = map (\<lambda>b. currency b @ blockchain b) (sortedBalances balances)"
proof -
  have v: "validBalances balances
      = filter (\<lambda>b. - 99 < getPriority (blockchain b) \<and> js_gt (amount b) (Fin 0)) balances"
    by (simp add: validBalances_def isValid_def fun_eq_iff cong: filter_cong)
  show ?thesis
    using sortedBalances_descending [of balances] sortedBalances_stable [of _ balances]
    by (simp add: v WalletPage_map comp_def)
qed

text \<open>An instance with a tie: Zilliqa and Neo both score 20 and keep their input order.\<close>

theorem sortedBalances_descending_stable_witness:
  "map currency (sortedBalances
     [\<lparr>currency = ''ZIL'', amount = Fin 1, blockchain = ''Zilliqa''\<rparr>,
      \<lparr>currency = ''OSMO'', amount = Fin 1, blockchain = ''Osmosis''\<rparr>,
      \<lparr>currency = ''NEO'', amount = Fin 1, blockchain = ''Neo''\<rparr>])
     = [''OSMO'', ''ZIL'', ''NEO'']
   \<and> map key (WalletPage Fin (\<lambda>n. ''1'') ''row'' Map.empty
     [\<lparr>currency = ''ZIL'', amount = Fin 1, blockchain = ''Zilliqa''\<rparr>,
      \<lparr>currency = ''OSMO'', amount = Fin 1, blockchain = ''Osmosis''\<rparr>,
      \<lparr>currency = ''NEO'', amount = Fin 1, blockchain = ''Neo''\<rparr>])
     = [''OSMOOsmosis'', ''ZILZilliqa'', ''NEONeo'']"
proof -
  let ?bs = "[\<lparr>currency = ''ZIL'', amount = Fin 1, blockchain = ''Zilliqa''\<rparr>,
      \<lparr>currency = ''OSMO'', amount = Fin 1, blockchain = ''Osmosis''\<rparr>,
      \<lparr>currency = ''NEO'', amount = Fin 1, blockchain = ''Neo''\<rparr>]"
  have s: "sortedBalances ?bs
     = [\<lparr>currency = ''OSMO'', amount = Fin 1, blockchain = ''Osmosis''\<rparr>,
        \<lparr>currency = ''ZIL'', amount = Fin 1, blockchain = ''Zilliqa''\<rparr>,
        \<lparr>currency = ''NEO'', amount = Fin 1, blockchain = ''Neo''\<rparr>]"
    by (simp add: sortedBalances_def validBalances_def isValid_def comparePriority_def
        getPriority_def)
  show ?thesis
    using sortedBalances_descending_stable [of ?bs Fin "\<lambda>n. ''1''" "''row''" Map.empty]
    unfolding s by simp
qed

text \<open>
  Claim C5, at the input of two valid records \<open>{ATOM, Osmosis, 3}\<close> and
  \<open>{BTC, Ethereum, 2}\<close>. The filter resolves Osmosis and Ethereum, and every comparator
  call the engine makes on the two records resolves both chains again, whichever
  operand comes first: with \<open>n\<close> comparator calls the stage has called \<open>getPriority\<close>
  \<open>2 + 2 * n\<close> times, and an engine that makes the single call
  \<open>comparefn(BTC, ATOM)\<close> has called it four times for the two records. Nothing keeps
  the values the filter computed.
\<close>

theorem getPriority_calls_two_records:
  "sortedBalances_logged schedule
     [\<lparr>currency = ''ATOM'', amount = Fin 3, blockchain = ''Osmosis''\<rparr>,
      \<lparr>currency = ''BTC'', amount = Fin 2, blockchain = ''Ethereum''\<rparr>] []
   = ([\<lparr>currency = ''ATOM'', amount = Fin 3, blockchain = ''Osmosis''\<rparr>,
       \<lparr>currency = ''BTC'', amount = Fin 2, blockchain = ''Ethereum''\<rparr>],
      [''Osmosis'', ''Ethereum'']
        @ concat (map (\<lambda>(lhs, rhs). [blockchain lhs, blockchain rhs])
            (schedule [\<lparr>currency = ''ATOM'', amount = Fin 3, blockchain = ''Osmosis''\<rparr>,
                       \<lparr>currency = ''BTC'', amount = Fin 2, blockchain = ''Ethereum''\<rparr>])))
   \<and> length (snd (sortedBalances_logged schedule
        [\<lparr>currency = ''ATOM'', amount = Fin 3, blockchain = ''Osmosis''\<rparr>,
         \<lparr>currency = ''BTC'', amount = Fin 2, blockchain = ''Ethereum''\<rparr>] []))
     = 2 + 2 * length (schedule
        [\<lparr>currency = ''ATOM'', amount = Fin 3, blockchain = ''Osmosis''\<rparr>,
         \<lparr>currency = ''BTC'', amount = Fin 2, blockchain = ''Ethereum''\<rparr>])
   \<and> comparePriority_logged
        \<lparr>currency = ''ATOM'', amount = Fin 3, blockchain = ''Osmosis''\<rparr>
        \<lparr>currency = ''BTC'', amount = Fin 2, blockchain = ''Ethereum''\<rparr>
        [''Osmosis'', ''Ethereum'']
      = (- 50, [''Osmosis'', ''Ethereum'', ''Osmosis'', ''Ethereum''])
   \<and> comparePriority_logged
        \<lparr>currency = ''BTC'', amount = Fin 2, blockchain = ''Ethereum''\<rparr>
        \<lparr>currency = ''ATOM'', amount = Fin 3, blockchain = ''Osmosis''\<rparr>
        [''Osmosis'', ''Ethereum'']
      = (50, [''Osmosis'', ''Ethereum'', ''Ethereum'', ''Osmosis''])
   \<and> sortedBalances_logged
        (\<lambda>valid. [(\<lparr>currency = ''BTC'', amount = Fin 2, blockchain = ''Ethereum''\<rparr>,
                    \<lparr>currency = ''ATOM'', amount = Fin 3, blockchain = ''Osmosis''\<rparr>)])
        [\<lparr>currency = ''ATOM'', amount = Fin 3, blockchain = ''Osmosis''\<rparr>,
         \<lparr>currency = ''BTC'', amount = Fin 2, blockchain = ''Ethereum''\<rparr>] []
      = ([\<lparr>currency = ''ATOM'', amount = Fin 3, blockchain = ''Osmosis''\<rparr>,
          \<lparr>currency = ''BTC'', amount = Fin 2, blockchain = ''Ethereum''\<rparr>],
         [''Osmosis'', ''Ethereum'', ''Ethereum'', ''Osmosis''])"
proof -
  let ?atom = "\<lparr>currency = ''ATOM'', amount = Fin 3, blockchain = ''Osmosis''\<rparr>"
  let ?btc = "\<lparr>currency = ''BTC'', amount = Fin 2, blockchain = ''Ethereum''\<rparr>"
  have v: "validBalances [?atom, ?btc] = [?atom, ?btc]"
    by (simp add: validBalances_def isValid_def getPriority_def)
  have s: "sortedBalances [?atom, ?btc] = [?atom, ?btc]"
    by (simp add: sortedBalances_def v comparePriority_def getPriority_def)
  have run: "sortedBalances_logged sch [?atom, ?btc] []
      = ([?atom, ?btc],
         [''Osmosis'', ''Ethereum'']
           @ concat (map (\<lambda>(lhs, rhs). [blockchain lhs, blockchain rhs])
               (sch [?atom, ?btc])))" for sch
    by (simp add: sortedBalances_logged_eq v s)
  have c1: "comparePriority_logged ?atom ?btc [''Osmosis'', ''Ethereum'']
      = (- 50, [''Osmosis'', ''Ethereum'', ''Osmosis'', ''Ethereum''])"
    by (simp add: comparePriority_logged_def getPriority_logged_def getPriority_def)
  have c2: "comparePriority_logged ?btc ?atom [''Osmosis'', ''Ethereum'']
      = (50, [''Osmosis'', ''Ethereum'', ''Ethereum'', ''Osmosis''])"
    by (simp add: comparePriority_logged_def getPriority_logged_def getPriority_def)
  have n: "length (snd (sortedBalances_logged schedule [?atom, ?btc] []))
      = 2 + 2 * length (schedule [?atom, ?btc])"
    by (simp add: getPriority_calls_count v)
  have v8: "sortedBalances_logged (\<lambda>valid. [(?btc, ?atom)]) [?atom, ?btc] []
      = ([?atom, ?btc], [''Osmosis'', ''Ethereum'', ''Ethereum'', ''Osmosis''])"
    by (simp add: run)
  from run [of schedule] n c1 c2 v8 show ?thesis by (intro conjI)
qed

text \<open>
  Claim C6, at the sorted sequence of the two records \<open>{ATOM, Osmosis, 3}\<close> and
  \<open>{BTC, Ethereum, 2}\<close>. The stage does not build the rows in one traversal: the map of
  \<open>formattedBalances\<close> visits both records and leaves an intermediate array of two
  formatted balances, and the map of \<open>rows\<close> then visits both again. Four callback
  runs stand against two records.
\<close>

theorem formatAndProject_two_traversals:
  "formatAndProject_logged rnd fmt cls prices
     [\<lparr>currency = ''ATOM'', amount = Fin 3, blockchain = ''Osmosis''\<rparr>,
      \<lparr>currency = ''BTC'', amount = Fin 2, blockchain = ''Ethereum''\<rparr>]
   = ([\<lparr>currency = ''ATOM'', amount = Fin 3, blockchain = ''Osmosis'',
        formatted = fmt (Fin 3)\<rparr>,
       \<lparr>currency = ''BTC'', amount = Fin 2, blockchain = ''Ethereum'',
        formatted = fmt (Fin 2)\<rparr>],
      [\<lparr>className = cls, key = ''ATOMOsmosis'', rowAmount = Fin 3,
        usdValue = js_mul rnd (ToNumber (prices ''ATOM'')) (Fin 3),
        formattedAmount = fmt (Fin 3)\<rparr>,
       \<lparr>className = cls, key = ''BTCEthereum'', rowAmount = Fin 2,
        usdValue = js_mul rnd (ToNumber (prices ''BTC'')) (Fin 2),
        formattedAmount = fmt (Fin 2)\<rparr>],
      [(FormattedBalancesMap, ''ATOMOsmosis''), (FormattedBalancesMap, ''BTCEthereum''),
       (RowsMap, ''ATOMOsmosis''), (RowsMap, ''BTCEthereum'')])"
  by (simp add: formatAndProject_logged_def Let_def)


text \<open>
  Claim C7. On the four records of the example the filter and sort stage returns ATOM
  (Osmosis, 100) and then BTC (Ethereum, 50); XYZ is left out because \<open>Unknown\<close>
  resolves to the sentinel, ETH because its amount is 0. The rows come in that order.
\<close>

theorem example_records_pipeline:
  "sortedBalances
     [\<lparr>currency = ''BTC'', amount = Fin 2, blockchain = ''Ethereum''\<rparr>,
      \<lparr>currency = ''XYZ'', amount = Fin 5, blockchain = ''Unknown''\<rparr>,
      \<lparr>currency = ''ETH'', amount = Fin 0, blockchain = ''Osmosis''\<rparr>,
      \<lparr>currency = ''ATOM'', amount = Fin 3, blockchain = ''Osmosis''\<rparr>]
   = [\<lparr>currency = ''ATOM'', amount = Fin 3, blockchain = ''Osmosis''\<rparr>,
      \<lparr>currency = ''BTC'', amount = Fin 2, blockchain = ''Ethereum''\<rparr>]
   \<and> map key (WalletPage rnd fmt cls prices
     [\<lparr>currency = ''BTC'', amount = Fin 2, blockchain = ''Ethereum''\<rparr>,
      \<lparr>currency = ''XYZ'', amount = Fin 5, blockchain = ''Unknown''\<rparr>,
      \<lparr>currency = ''ETH'', amount = Fin 0, blockchain = ''Osmosis''\<rparr>,
      \<lparr>currency = ''ATOM'', amount = Fin 3, blockchain = ''Osmosis''\<rparr>])
   = [''ATOMOsmosis'', ''BTCEthereum'']
   \<and> getPriority ''Osmosis'' = 100 \<and> getPriority ''Ethereum'' = 50
   \<and> getPriority ''Unknown'' = - 99"
  by (simp add: WalletPage_map sortedBalances_def validBalances_def isValid_def
      comparePriority_def getPriority_def)

text \<open>
  Claim C8. \<open>getPriority\<close> is a total function of its argument alone (so two calls on
  the same string agree): each of the five known chains has its score, every other
  string has the sentinel \<open>-99\<close>, and the sentinel lies strictly below every score of a
  known chain.
\<close>

theorem getPriority_contract:
  "getPriority ''Osmosis'' = 100 \<and> getPriority ''Ethereum'' = 50
   \<and> getPriority ''Arbitrum'' = 30 \<and> getPriority ''Zilliqa'' = 20
   \<and> getPriority ''Neo'' = 20
   \<and> (chain \<notin> {''Osmosis'', ''Ethereum'', ''Arbitrum'', ''Zilliqa'', ''Neo''}
        \<longrightarrow> getPriority chain = - 99)
   \<and> (chain \<in> {''Osmosis'', ''Ethereum'', ''Arbitrum'', ''Zilliqa'', ''Neo''}
        \<longrightarrow> - 99 < getPriority chain)
   \<and> (\<forall>chain'. chain' = chain \<longrightarrow> getPriority chain' = getPriority chain)"
  by (auto simp: getPriority_def)

theorem getPriority_contract_witness:
  "''Unknown'' \<notin> {''Osmosis'', ''Ethereum'', ''Arbitrum'', ''Zilliqa'', ''Neo''}
   \<and> getPriority ''Unknown'' = - 99
   \<and> ''Neo'' \<in> {''Osmosis'', ''Ethereum'', ''Arbitrum'', ''Zilliqa'', ''Neo''}
   \<and> - 99 < getPriority ''Neo''"
  using getPriority_contract [of "''Unknown''"] getPriority_contract [of "''Neo''"]
  by simp

text \<open>
  Claim C9, as the code has it. The formatting stage keeps the currency, the
  blockchain and the amount of every record and adds \<open>formatted\<close>. The row then carries
  the amount and the formatted amount unchanged, but has no field for the currency or
  the blockchain: they enter the row only joined into its key. The records behind the
  rows are records of the input, and for them the key still determines the pair.
\<close>

theorem rows_carry_amount_and_key:
  "map (\<lambda>b. (currency b, blockchain b, amount b)) (formattedBalances fmt sorted_balances)
     = map (\<lambda>b. (currency b, blockchain b, amount b)) sorted_balances
   \<and> map formatted (formattedBalances fmt sorted_balances)
     = map (\<lambda>b. fmt (amount b)) sorted_balances
   \<and> map rowAmount (WalletPage rnd fmt cls prices balances)
     = map amount (sortedBalances balances)
   \<and> map formattedAmount (WalletPage rnd fmt cls prices balances)
     = map (\<lambda>b. fmt (amount b)) (sortedBalances balances)
   \<and> map key (WalletPage rnd fmt cls prices balances)
     = map (\<lambda>b. currency b @ blockchain b) (sortedBalances balances)
   \<and> set (sortedBalances balances) \<subseteq> set balances
   \<and> (\<forall>a \<in> set (sortedBalances balances). \<forall>b \<in> set (sortedBalances balances).
        currency a @ blockchain a = currency b @ blockchain b
        \<longrightarrow> currency a = currency b \<and> blockchain a = blockchain b)"
proof -
  have "\<forall>a \<in> set (sortedBalances balances). \<forall>b \<in> set (sortedBalances balances).
        currency a @ blockchain a = currency b @ blockchain b
        \<longrightarrow> currency a = currency b \<and> blockchain a = blockchain b"
    using key_determines_pair by (simp add: set_sortedBalances isValid_def) blast
  then show ?thesis
    by (simp add: WalletPage_map formattedBalances_def comp_def set_sortedBalances)
qed

theorem rows_carry_amount_and_key_witness:
  "sortedBalances [\<lparr>currency = ''BTC'', amount = Fin 2, blockchain = ''Ethereum''\<rparr>,
                   \<lparr>currency = ''ATOM'', amount = Fin 3, blockchain = ''Osmosis''\<rparr>]
     = [\<lparr>currency = ''ATOM'', amount = Fin 3, blockchain = ''Osmosis''\<rparr>,
        \<lparr>currency = ''BTC'', amount = Fin 2, blockchain = ''Ethereum''\<rparr>]
   \<and> map rowAmount (WalletPage Fin (\<lambda>n. ''2'') ''row'' Map.empty
        [\<lparr>currency = ''BTC'', amount = Fin 2, blockchain = ''Ethereum''\<rparr>,
         \<lparr>currency = ''ATOM'', amount = Fin 3, blockchain = ''Osmosis''\<rparr>]) = [Fin 3, Fin 2]
   \<and> map key (WalletPage Fin (\<lambda>n. ''2'') ''row'' Map.empty
        [\<lparr>currency = ''BTC'', amount = Fin 2, blockchain = ''Ethereum''\<rparr>,
         \<lparr>currency = ''ATOM'', amount = Fin 3, blockchain = ''Osmosis''\<rparr>])
     = [''ATOMOsmosis'', ''BTCEthereum'']"
proof -
  let ?bs = "[\<lparr>currency = ''BTC'', amount = Fin 2, blockchain = ''Ethereum''\<rparr>,
              \<lparr>currency = ''ATOM'', amount = Fin 3, blockchain = ''Osmosis''\<rparr>]"
  have s: "sortedBalances ?bs
     = [\<lparr>currency = ''ATOM'', amount = Fin 3, blockchain = ''Osmosis''\<rparr>,
        \<lparr>currency = ''BTC'', amount = Fin 2, blockchain = ''Ethereum''\<rparr>]"
    by (simp add: sortedBalances_def validBalances_def isValid_def comparePriority_def
        getPriority_def)
  show ?thesis
    using rows_carry_amount_and_key [of "\<lambda>n. ''2''" ?bs Fin "''row''" Map.empty ?bs]
    unfolding s by simp
qed

text \<open>
  Claim C9 as it is stated fails: the whole row of the record \<open>{BTC, Ethereum, 2}\<close> is
  the one below, and its key, the only field made from the currency and the blockchain,
  is neither of them.
\<close>

theorem row_fields_counterexample:
  "WalletPage Fin (\<lambda>n. ''2'') ''row'' Map.empty
     [\<lparr>currency = ''BTC'', amount = Fin 2, blockchain = ''Ethereum''\<rparr>]
   = [\<lparr>className = ''row'', key = ''BTCEthereum'', rowAmount = Fin 2, usdValue = NaN,
       formattedAmount = ''2''\<rparr>]
   \<and> key (hd (WalletPage Fin (\<lambda>n. ''2'') ''row'' Map.empty
        [\<lparr>currency = ''BTC'', amount = Fin 2, blockchain = ''Ethereum''\<rparr>]))
     \<noteq> currency \<lparr>currency = ''BTC'', amount = Fin 2, blockchain = ''Ethereum''\<rparr>
   \<and> key (hd (WalletPage Fin (\<lambda>n. ''2'') ''row'' Map.empty
        [\<lparr>currency = ''BTC'', amount = Fin 2, blockchain = ''Ethereum''\<rparr>]))
     \<noteq> blockchain \<lparr>currency = ''BTC'', amount = Fin 2, blockchain = ''Ethereum''\<rparr>"
  by (simp add: WalletPage_map sortedBalances_def validBalances_def isValid_def
      getPriority_def ToNumber_def)


section \<open>The claim on the currency swap form\<close>

lemma findPrice_Some:
  "findPrice ts c = Some p \<Longrightarrow> \<exists>t \<in> set ts. tokenCurrency t = c \<and> price t = p"
  by (auto simp: findPrice_def find_Some_iff split: option.splits)

text \<open>
  Claim C10. The token list is what \<open>response.json()\<close> returned, and JSON has no
  literal for NaN, so no listed price is NaN. When both a from-token and a to-token are
  selected, the effect sets the exchange rate to \<open>Number((fromPrice / toPrice).toFixed(6))\<close>
  if both currencies are found in the list with a price other than zero, and to \<open>null\<close>
  otherwise; a listed price of exactly 0 gives \<open>null\<close> just as a currency that is not
  listed does.
\<close>

theorem exchangeRateEffect_rate:
  assumes "fromToken s \<noteq> []" and "toToken s \<noteq> []"
    and "\<forall>t \<in> set (tokens s). price t \<noteq> NaN"
  shows "exchangeRate (exchangeRateEffect rnd toFixed Number s) =
     (case (findPrice (tokens s) (fromToken s), findPrice (tokens s) (toToken s)) of
        (Some fromPrice, Some toPrice) \<Rightarrow>
          if fromPrice \<noteq> Fin 0 \<and> toPrice \<noteq> Fin 0
          then Some (Number (toFixed (js_div rnd fromPrice toPrice) 6))
          else None
      | _ \<Rightarrow> None)
   \<and> ((findPrice (tokens s) (fromToken s) \<in> {None, Some (Fin 0)}
        \<or> findPrice (tokens s) (toToken s) \<in> {None, Some (Fin 0)})
       \<longrightarrow> exchangeRate (exchangeRateEffect rnd toFixed Number s) = None)"
proof -
  have nan: "findPrice (tokens s) c \<noteq> Some NaN" for c
    using assms(3) by (auto dest: findPrice_Some)
  show ?thesis
    using assms(1,2) nan [of "fromToken s"] nan [of "toToken s"]
    by (auto simp: exchangeRateEffect_def truthy_def ToNumber_def Let_def
        split: option.splits)
qed

text \<open>
  Three runs on a list with a token priced 0: ETH to USD gets a rate, ETH to the
  zero-priced token and ETH to a currency that is not listed both get \<open>null\<close>.
\<close>

theorem exchangeRateEffect_rate_witness:
  "exchangeRate (exchangeRateEffect Fin (\<lambda>n d. ''1600.000000'') (\<lambda>t. Fin 1600)
     \<lparr>tokens = [\<lparr>tokenCurrency = ''USD'', date = ''2023-08-29'', price = Fin 1\<rparr>,
                \<lparr>tokenCurrency = ''ETH'', date = ''2023-08-29'', price = Fin 1600\<rparr>,
                \<lparr>tokenCurrency = ''ZERO'', date = ''2023-08-29'', price = Fin 0\<rparr>],
      fromToken = ''ETH'', toToken = ''USD'', amountInput = ''1'', exchangeRate = None,
      loading = False, error = [], result = None\<rparr>) = Some (Fin 1600)
   \<and> exchangeRate (exchangeRateEffect Fin (\<lambda>n d. ''1600.000000'') (\<lambda>t. Fin 1600)
     \<lparr>tokens = [\<lparr>tokenCurrency = ''USD'', date = ''2023-08-29'', price = Fin 1\<rparr>,
                \<lparr>tokenCurrency = ''ETH'', date = ''2023-08-29'', price = Fin 1600\<rparr>,
                \<lparr>tokenCurrency = ''ZERO'', date = ''2023-08-29'', price = Fin 0\<rparr>],
      fromToken = ''ETH'', toToken = ''ZERO'', amountInput = ''1'',
      exchangeRate = Some (Fin 1600), loading = False, error = [], result = None\<rparr>) = None
   \<and> exchangeRate (exchangeRateEffect Fin (\<lambda>n d. ''1600.000000'') (\<lambda>t. Fin 1600)
     \<lparr>tokens = [\<lparr>tokenCurrency = ''USD'', date = ''2023-08-29'', price = Fin 1\<rparr>,
                \<lparr>tokenCurrency = ''ETH'', date = ''2023-08-29'', price = Fin 1600\<rparr>,
                \<lparr>tokenCurrency = ''ZERO'', date = ''2023-08-29'', price = Fin 0\<rparr>],
      fromToken = ''ETH'', toToken = ''LUNA'', amountInput = ''1'',
      exchangeRate = Some (Fin 1600), loading = False, error = [], result = None\<rparr>) = None"
proof -
  let ?ts = "[\<lparr>tokenCurrency = ''USD'', date = ''2023-08-29'', price = Fin 1\<rparr>,
              \<lparr>tokenCurrency = ''ETH'', date = ''2023-08-29'', price = Fin 1600\<rparr>,
              \<lparr>tokenCurrency = ''ZERO'', date = ''2023-08-29'', price = Fin 0\<rparr>]"
  let ?s = "\<lambda>to old. \<lparr>tokens = ?ts, fromToken = ''ETH'', toToken = to, amountInput = ''1'',
      exchangeRate = old, loading = False, error = [], result = None\<rparr>"
  have json: "\<forall>t \<in> set (tokens (?s to old)). price t \<noteq> NaN" for to old
    by simp
  have sel: "fromToken (?s to old) \<noteq> []" for to old
    by simp
  have p: "findPrice ?ts ''ETH'' = Some (Fin 1600)" "findPrice ?ts ''USD'' = Some (Fin 1)"
    "findPrice ?ts ''ZERO'' = Some (Fin 0)" "findPrice ?ts ''LUNA'' = None"
    by (simp_all add: findPrice_def)
  have "exchangeRate (exchangeRateEffect Fin (\<lambda>n d. ''1600.000000'') (\<lambda>t. Fin 1600)
      (?s ''USD'' None)) = Some (Fin 1600)"
    using exchangeRateEffect_rate [OF sel _ json, of "''USD''" None Fin
        "\<lambda>n d. ''1600.000000''" "\<lambda>t. Fin 1600"]
    by (simp add: p)
  moreover have "exchangeRate (exchangeRateEffect Fin (\<lambda>n d. ''1600.000000'') (\<lambda>t. Fin 1600)
      (?s ''ZERO'' (Some (Fin 1600)))) = None"
    using exchangeRateEffect_rate [OF sel _ json, of "''ZERO''" "Some (Fin 1600)" Fin
        "\<lambda>n d. ''1600.000000''" "\<lambda>t. Fin 1600"]
    by (simp add: p)
  moreover have "exchangeRate (exchangeRateEffect Fin (\<lambda>n d. ''1600.000000'') (\<lambda>t. Fin 1600)
      (?s ''LUNA'' (Some (Fin 1600)))) = None"
    using exchangeRateEffect_rate [OF sel _ json, of "''LUNA''" "Some (Fin 1600)" Fin
        "\<lambda>n d. ''1600.000000''" "\<lambda>t. Fin 1600"]
    by (simp add: p)
  ultimately show ?thesis by simp
qed

end
